theory Spec2Isabelle
  imports Complex_Main
begin

section \<open>Python string operations used by the handler\<close>

text \<open>
  Text is modelled as ASCII: a \<^typ>\<open>string\<close> is a list of characters, the cased
  characters are the 26 Latin letters, every other character is uncased and is left
  alone by \<open>upper\<close> and \<open>lower\<close>. Permission names, command names and the literals of
  \<open>cogs/cmd_errors.py\<close> are ASCII.
\<close>

definition lowercase_letters :: string where
  "lowercase_letters = ''abcdefghijklmnopqrstuvwxyz''"

definition uppercase_letters :: string where
  "uppercase_letters = ''ABCDEFGHIJKLMNOPQRSTUVWXYZ''"

definition is_cased :: "char \<Rightarrow> bool" where
  "is_cased c = (c \<in> set lowercase_letters \<or> c \<in> set uppercase_letters)"

definition to_upper :: "char \<Rightarrow> char" where
  "to_upper c =
     (case map_of (zip lowercase_letters uppercase_letters) c of
        Some u \<Rightarrow> u
      | None \<Rightarrow> c)"

definition to_lower :: "char \<Rightarrow> char" where
  "to_lower c =
     (case map_of (zip uppercase_letters lowercase_letters) c of
        Some l \<Rightarrow> l
      | None \<Rightarrow> c)"

text \<open>
  \<open>str.title()\<close>: a character that follows a cased character is lowercased, any other
  character is uppercased; the flag is whether the \<^emph>\<open>source\<close> character just read is
  cased.
\<close>

fun title_from :: "bool \<Rightarrow> string \<Rightarrow> string" where
  "title_from previous_is_cased [] = []"
| "title_from previous_is_cased (c # cs) =
     (if previous_is_cased then to_lower c else to_upper c) # title_from (is_cased c) cs"

definition title :: "string \<Rightarrow> string" where
  "title s = title_from False s"

text \<open>
  \<open>str.replace(old, new)\<close> for a non-empty \<open>old\<close>, given as its first character and
  its rest: occurrences are replaced left to right and do not overlap.
\<close>

fun replace_from :: "char \<Rightarrow> string \<Rightarrow> string \<Rightarrow> string \<Rightarrow> string" where
  "replace_from o_hd o_tl new [] = []"
| "replace_from o_hd o_tl new (c # cs) =
     (if c = o_hd \<and> take (length o_tl) cs = o_tl
      then new @ replace_from o_hd o_tl new (drop (length o_tl) cs)
      else c # replace_from o_hd o_tl new cs)"

text \<open>With an empty \<open>old\<close>, Python puts \<open>new\<close> before every character and at the end.\<close>

definition replace :: "string \<Rightarrow> string \<Rightarrow> string \<Rightarrow> string" where
  "replace old new s =
     (case old of
        [] \<Rightarrow> new @ concat (map (\<lambda>c. c # new) s)
      | o_hd # o_tl \<Rightarrow> replace_from o_hd o_tl new s)"

text \<open>\<open>sep.join(items)\<close>.\<close>

fun join :: "string \<Rightarrow> string list \<Rightarrow> string" where
  "join sep [] = []"
| "join sep [x] = x"
| "join sep (x # y # ys) = x @ sep @ join sep (y # ys)"

text \<open>\<open>str(n)\<close> for an integer: decimal digits, a minus sign for a negative number.\<close>

definition digit_char :: "nat \<Rightarrow> char" where
  "digit_char d = ''0123456789'' ! d"

function str_nat :: "nat \<Rightarrow> string" where
  "str_nat n = (if n < 10 then [digit_char n] else str_nat (n div 10) @ [digit_char (n mod 10)])"
  by pat_completeness auto
termination
  by (relation "measure (\<lambda>n. n)") auto

definition str_int :: "int \<Rightarrow> string" where
  "str_int i = (if i < 0 then CHR ''-'' # str_nat (nat (- i)) else str_nat (nat i))"

section \<open>Permission-list formatting\<close>

text \<open>
  Lines 38 and 71 of \<open>cogs/cmd_errors.py\<close>:
  \<^verbatim>\<open>perm.replace("_", " ").replace("guild", "server").title()\<close>
\<close>

definition normalize_perm :: "string \<Rightarrow> string" where
  "normalize_perm perm = title (replace ''guild'' ''server'' (replace ''_'' '' '' perm))"

text \<open>
  Lines 38-42 and 71-75 (the same code in both branches):
  \<^verbatim>\<open>
  missing = [... for perm in error.missing_perms]
  if len(missing) > 2:
      fmt = "{}, and {}".format("**, **".join(missing[:-1]), missing[-1])
  else:
      fmt = " and ".join(missing)
  \<close>
  \<open>missing[:-1]\<close> is \<^const>\<open>butlast\<close> and \<open>missing[-1]\<close> is \<^const>\<open>last\<close>; the
  latter is read only for a list of more than two items.
\<close>

definition format_missing :: "string list \<Rightarrow> string" where
  "format_missing missing_perms =
     (let missing = map normalize_perm missing_perms
      in if length missing > 2
         then join ''**, **'' (butlast missing) @ '', and '' @ last missing
         else join '' and '' missing)"

section \<open>Errors, context and the bot\<close>

text \<open>
  The classes that \<open>on_command_error\<close> tests with \<open>isinstance\<close>, or catches. They
  come from \<open>discord.ext.commands\<close>, \<open>discord.errors\<close> and \<open>helpers.errors\<close>;
  any other class is an \<open>OtherClass\<close>.
\<close>

datatype exc_class =
    CommandNotFound
  | BotMissingPermissions
  | DisabledCommand
  | CommandOnCooldown
  | MissingPermissions
  | UserInputError
  | NoPrivateMessage
  | CheckFailure
  | Forbidden
  | RoleNotFound
  | DefaultGuildRoleNotSet
  | DatabaseMissingData
  | OtherClass string

text \<open>
  What the handler reads from an exception object. The class hierarchy is not part of
  \<open>cogs/cmd_errors.py\<close>, so every error carries it: \<open>mro\<close> lists the classes the
  error is an instance of (its own class and the classes that one derives from).
  \<open>type_module\<close> and \<open>type_name\<close> are \<open>__module__\<close> and \<open>__name__\<close> of the
  error's class, \<open>str_value\<close> is \<open>str(error)\<close>, \<open>format_exception\<close> is the list
  of lines that \<open>traceback.format_exception\<close> returns for the error and its
  \<open>__traceback__\<close>. \<open>missing_perms\<close>, \<open>retry_after\<close>, \<open>code\<close> and
  \<open>message\<close> are the attributes of those names; each is read only after the
  \<open>isinstance\<close> test of a class that defines it. \<open>retry_after\<close> is a finite float,
  hence a real number, and \<open>math.ceil\<close> of it is the exact ceiling.
\<close>

record exc_attrs =
  type_module :: string
  type_name :: string
  mro :: "exc_class list"
  str_value :: string
  format_exception :: "string list"
  missing_perms :: "string list"
  retry_after :: real
  code :: int
  message :: string

text \<open>
  An error is an instance of \<open>Exception\<close>, with or without an \<open>original\<close>
  attribute (the wrapped cause, as in \<open>CommandInvokeError\<close>).
\<close>

datatype py_error = PyError (attrs: exc_attrs) (original: "py_error option")

definition isinstance :: "py_error \<Rightarrow> exc_class \<Rightarrow> bool" where
  "isinstance e c = (c \<in> set (mro (attrs e)))"

text \<open>\<open>getattr(error, "original", error)\<close>\<close>

definition getattr_original :: "py_error \<Rightarrow> py_error" where
  "getattr_original e = (case original e of Some inner \<Rightarrow> inner | None \<Rightarrow> e)"

text \<open>\<open>str(error)\<close> and \<open>str(type(error))\<close>, for a class defined at module level.\<close>

definition str_error :: "py_error \<Rightarrow> string" where
  "str_error e = str_value (attrs e)"

definition str_type :: "py_error \<Rightarrow> string" where
  "str_type e =
     ''<class '' @ [CHR 0x27] @
     (if type_module (attrs e) = ''builtins'' then type_name (attrs e)
      else type_module (attrs e) @ ''.'' @ type_name (attrs e))
     @ [CHR 0x27] @ ''>''"

text \<open>
  \<open>ctx.command\<close> is a command or \<open>None\<close> (no command was found). A command's
  \<open>str\<close> is its qualified name; \<open>has_on_error\<close> says whether the command has an
  \<open>on_error\<close> attribute, its local error handler.
\<close>

record command =
  qualified_name :: string
  has_on_error :: bool

record cmd_context =
  command :: "command option"
  author_id :: int

definition hasattr_on_error :: "command option \<Rightarrow> bool" where
  "hasattr_on_error cmd = (case cmd of None \<Rightarrow> False | Some c \<Rightarrow> has_on_error c)"

definition str_command :: "command option \<Rightarrow> string" where
  "str_command cmd = (case cmd of None \<Rightarrow> ''None'' | Some c \<Rightarrow> qualified_name c)"

text \<open>
  Modelled from the spec: \<open>helpers/embed_handler.py\<close> is not among the sources. Section
  4.2 of the specification has a summary entry, built from the message and the context,
  and a second entry that holds the formatted stack trace. An embed is represented by the
  call that builds it: \<open>log_embed(exception_message, ctx=ctx, title=...)\<close> and
  \<open>traceback_embed(traceback_message)\<close>.
\<close>

datatype embed =
    Log_embed string cmd_context string
  | Traceback_embed "string list"

type_synonym channel = int

text \<open>
  The calls the handler makes on the framework, in the order it makes them. An event
  records that the call was made; whether it returned or raised is decided by the bot
  below.
\<close>

datatype event =
    CtxSend string
  | AuthorSend string
  | Reinvoke
  | LoggerCritical string
  | LoggerCriticalLines "string list"
  | ChannelSend channel embed

text \<open>
  The bot and the framework around one invocation. \<open>developers\<close> is the dictionary of
  \<open>bot.config.get_developers()\<close>; \<open>get_channel\<close> gives \<open>None\<close> for an unknown
  channel. The four \<open>_raises\<close> fields say what an awaited call raises, \<open>None\<close> when it
  returns: \<open>ctx.send\<close>, \<open>ctx.author.send\<close>, \<open>ctx.reinvoke\<close> and the
  \<open>send\<close> of a channel.
\<close>

record bot =
  developers :: "(string \<times> int) list"
  is_ready :: bool
  developer_log_channel_id :: int
  get_channel :: "int \<Rightarrow> channel option"
  ctx_send_raises :: "string \<Rightarrow> py_error option"
  author_send_raises :: "string \<Rightarrow> py_error option"
  reinvoke_raises :: "py_error option"
  channel_send_raises :: "channel \<Rightarrow> embed \<Rightarrow> py_error option"

section \<open>Running a coroutine\<close>

text \<open>
  A run is the list of calls made and the exception that ended it, \<open>None\<close> when the
  coroutine returned.
\<close>

type_synonym outcome = "event list \<times> py_error option"

definition returns :: outcome where
  "returns = ([], None)"

definition call :: "event \<Rightarrow> py_error option \<Rightarrow> outcome" where
  "call ev raised = ([ev], raised)"

text \<open>Two statements in sequence: the second runs only if the first did not raise.\<close>

definition and_then :: "outcome \<Rightarrow> outcome \<Rightarrow> outcome" where
  "and_then first rest =
     (case snd first of
        Some e \<Rightarrow> first
      | None \<Rightarrow> (fst first @ fst rest, snd rest))"

text \<open>\<open>try: body except C as e: handler\<close>, where \<open>catches\<close> is the test of \<open>C\<close>.\<close>

definition try_except :: "outcome \<Rightarrow> (py_error \<Rightarrow> bool) \<Rightarrow> (py_error \<Rightarrow> outcome) \<Rightarrow> outcome" where
  "try_except body catches handler =
     (case snd body of
        None \<Rightarrow> body
      | Some e \<Rightarrow>
          if catches e then (fst body @ fst (handler e), snd (handler e)) else body)"

definition ctx_send :: "bot \<Rightarrow> string \<Rightarrow> outcome" where
  "ctx_send b content = call (CtxSend content) (ctx_send_raises b content)"

definition author_send :: "bot \<Rightarrow> string \<Rightarrow> outcome" where
  "author_send b content = call (AuthorSend content) (author_send_raises b content)"

definition reinvoke :: "bot \<Rightarrow> outcome" where
  "reinvoke b = call Reinvoke (reinvoke_raises b)"

definition channel_send :: "bot \<Rightarrow> channel \<Rightarrow> embed \<Rightarrow> outcome" where
  "channel_send b ch em = call (ChannelSend ch em) (channel_send_raises b ch em)"

section \<open>The handler\<close>

text \<open>
  \<open>log_traceback\<close>, lines 125-137. \<open>logger.critical\<close> returns: the logging module
  does not raise into its caller.
\<close>

definition exception_message :: "cmd_context \<Rightarrow> py_error \<Rightarrow> string" where
  "exception_message ctx error =
     ''Ignoring '' @ str_type error @ '' exception in command '' @ [CHR 0x27]
     @ str_command (command ctx) @ [CHR 0x27] @ '':'' @ str_error error"

definition log_traceback :: "bot \<Rightarrow> cmd_context \<Rightarrow> py_error \<Rightarrow> outcome" where
  "log_traceback b ctx error =
     (let traceback_message = format_exception (attrs error)
      in and_then (call (LoggerCritical (exception_message ctx error)) None)
        (and_then (call (LoggerCriticalLines traceback_message) None)
          (if is_ready b then
             (let log_channel = get_channel b (developer_log_channel_id b);
                  embed = Log_embed (exception_message ctx error) ctx ''Command error!'';
                  traceback_embed = Traceback_embed traceback_message
              in case log_channel of
                   None \<Rightarrow> returns
                 | Some ch \<Rightarrow>
                     and_then (channel_send b ch embed) (channel_send b ch traceback_embed))
           else returns)))"

text \<open>
  \<open>on_command_error\<close>, lines 18-123. \<open>except Exception\<close> catches every error of the
  model; \<open>ctx.send(e)\<close> sends \<open>str(e)\<close>.
\<close>

definition on_command_error :: "bot \<Rightarrow> cmd_context \<Rightarrow> py_error \<Rightarrow> outcome" where
  "on_command_error b ctx raised =
     (if hasattr_on_error (command ctx) then returns
      else
        let error = getattr_original raised in
        if isinstance error CommandNotFound then ctx_send b ''Command not found.''
        else if isinstance error BotMissingPermissions then
          ctx_send b (''I need the **'' @ format_missing (missing_perms (attrs error))
                      @ ''** permission(s) to run this command.'')
        else if isinstance error DisabledCommand then
          ctx_send b ''This command has been disabled.''
        else if isinstance error CommandOnCooldown then
          (if author_id ctx \<in> set (map snd (developers b))
           then try_except (reinvoke b) (\<lambda>e. True) (\<lambda>e. ctx_send b (str_error e))
           else ctx_send b (''This command is on cooldown, please retry in ''
                            @ str_int \<lceil>retry_after (attrs error)\<rceil> @ ''s.''))
        else if isinstance error MissingPermissions then
          ctx_send b (''You need the **'' @ format_missing (missing_perms (attrs error))
                      @ ''** permission(s) to use this command.'')
        else if isinstance error UserInputError then
          ctx_send b (''Invalid command input: '' @ str_error error)
        else if isinstance error NoPrivateMessage then
          try_except (author_send b ''This command cannot be used in direct messages.'')
            (\<lambda>e. isinstance e Forbidden) (\<lambda>e. returns)
        else if isinstance error CheckFailure then
          ctx_send b ''You do not have permission to use this command.''
        else if isinstance error Forbidden then
          (if code (attrs error) = 50013 then
             ctx_send b (str_error error @ ''.'' @ [CHR 0x0A]
                         @ ''Check role hierarchy - I can only manage roles below me.'')
           else if code (attrs error) = 50007 then
             ctx_send b (str_error error @ ''.'' @ [CHR 0x0A] @ ''Hint: Disabled DMs?'')
           else ctx_send b (str_error error @ ''.''))
        else if isinstance error RoleNotFound then ctx_send b (message (attrs error))
        else if isinstance error DefaultGuildRoleNotSet then
          ctx_send b (''Trying to use default guild license but: '' @ message (attrs error))
        else if isinstance error DatabaseMissingData then
          and_then (ctx_send b (''Critical database error: '' @ message (attrs error)))
                   (log_traceback b ctx error)
        else
          and_then (log_traceback b ctx error)
            (ctx_send b (''Ignoring exception **'' @ type_name (attrs error)
                         @ ''** that happened while processing command **''
                         @ str_command (command ctx) @ ''**:'' @ [CHR 0x0A] @ str_error error)))"

section \<open>Variants of the specification\<close>

text \<open>
  The specification speaks of the variant of an error. The handler's chain of
  \<open>isinstance\<close> tests takes the first class that matches, in this order; an error that
  matches none is the Unknown variant.
\<close>

definition handler_order :: "exc_class list" where
  "handler_order =
     [CommandNotFound, BotMissingPermissions, DisabledCommand, CommandOnCooldown,
      MissingPermissions, UserInputError, NoPrivateMessage, CheckFailure, Forbidden,
      RoleNotFound, DefaultGuildRoleNotSet, DatabaseMissingData]"

definition variant_of :: "py_error \<Rightarrow> exc_class option" where
  "variant_of e = find (isinstance e) handler_order"

text \<open>
  The list pattern of section 4.1a, read from the front: one item stands alone, the last
  two of a longer list are joined by \<open>", and "\<close>, the items before them are followed by
  the separator.
\<close>

fun serial_list :: "string \<Rightarrow> string list \<Rightarrow> string" where
  "serial_list sep [] = []"
| "serial_list sep [x] = x"
| "serial_list sep [x, y] = x @ '', and '' @ y"
| "serial_list sep (x # y # z # zs) = x @ sep @ serial_list sep (y # z # zs)"

text \<open>The replies of the table of section 4.1 that the theorems name.\<close>

definition forbidden_reply :: "string \<Rightarrow> int \<Rightarrow> string" where
  "forbidden_reply detail c =
     (if c = 50013 then
        detail @ ''.'' @ [CHR 0x0A] @ ''Check role hierarchy - I can only manage roles below me.''
      else if c = 50007 then detail @ ''.'' @ [CHR 0x0A] @ ''Hint: Disabled DMs?''
      else detail @ ''.'')"

definition cooldown_reply :: "real \<Rightarrow> string" where
  "cooldown_reply retry_after_seconds =
     ''This command is on cooldown, please retry in '' @ str_int \<lceil>retry_after_seconds\<rceil> @ ''s.''"

definition unknown_reply :: "string \<Rightarrow> string \<Rightarrow> string \<Rightarrow> string" where
  "unknown_reply name cmd detail =
     ''Ignoring exception **'' @ name @ ''** that happened while processing command **''
     @ cmd @ ''**:'' @ [CHR 0x0A] @ detail"

definition dm_only_text :: string where
  "dm_only_text = ''This command cannot be used in direct messages.''"

text \<open>
  The table of section 4.1, read by variant: what the responder does for an error of a
  given variant, from the attributes of that error. Where the table adds the diagnostic
  log to a reply, the two come in the handler's order: reply, then log, for
  DatabaseMissingData; log, then reply, for an unknown error.
\<close>

fun respond :: "bot \<Rightarrow> cmd_context \<Rightarrow> exc_class option \<Rightarrow> py_error \<Rightarrow> outcome" where
  "respond b ctx (Some CommandNotFound) e = ctx_send b ''Command not found.''"
| "respond b ctx (Some BotMissingPermissions) e =
     ctx_send b (''I need the **'' @ format_missing (missing_perms (attrs e))
                 @ ''** permission(s) to run this command.'')"
| "respond b ctx (Some DisabledCommand) e = ctx_send b ''This command has been disabled.''"
| "respond b ctx (Some CommandOnCooldown) e =
     (if author_id ctx \<in> set (map snd (developers b))
      then try_except (reinvoke b) (\<lambda>r. True) (\<lambda>r. ctx_send b (str_error r))
      else ctx_send b (cooldown_reply (retry_after (attrs e))))"
| "respond b ctx (Some MissingPermissions) e =
     ctx_send b (''You need the **'' @ format_missing (missing_perms (attrs e))
                 @ ''** permission(s) to use this command.'')"
| "respond b ctx (Some UserInputError) e = ctx_send b (''Invalid command input: '' @ str_error e)"
| "respond b ctx (Some NoPrivateMessage) e =
     try_except (author_send b dm_only_text) (\<lambda>r. isinstance r Forbidden) (\<lambda>r. returns)"
| "respond b ctx (Some CheckFailure) e =
     ctx_send b ''You do not have permission to use this command.''"
| "respond b ctx (Some Forbidden) e =
     ctx_send b (forbidden_reply (str_error e) (code (attrs e)))"
| "respond b ctx (Some RoleNotFound) e = ctx_send b (message (attrs e))"
| "respond b ctx (Some DefaultGuildRoleNotSet) e =
     ctx_send b (''Trying to use default guild license but: '' @ message (attrs e))"
| "respond b ctx (Some DatabaseMissingData) e =
     and_then (ctx_send b (''Critical database error: '' @ message (attrs e)))
              (log_traceback b ctx e)"
| "respond b ctx v e =
     and_then (log_traceback b ctx e)
       (ctx_send b (unknown_reply (type_name (attrs e)) (str_command (command ctx))
                      (str_error e)))"

text \<open>The events of the diagnostic log, and the replies sent to the channel.\<close>

fun is_log_event :: "event \<Rightarrow> bool" where
  "is_log_event (LoggerCritical m) = True"
| "is_log_event (LoggerCriticalLines ls) = True"
| "is_log_event (ChannelSend ch em) = True"
| "is_log_event ev = False"

fun is_ctx_send :: "event \<Rightarrow> bool" where
  "is_ctx_send (CtxSend m) = True"
| "is_ctx_send ev = False"

section \<open>Example values\<close>

definition make_error :: "string \<Rightarrow> string \<Rightarrow> exc_class list \<Rightarrow> string \<Rightarrow> exc_attrs" where
  "make_error md name classes s =
     \<lparr>type_module = md, type_name = name, mro = classes, str_value = s,
      format_exception = [''Traceback (most recent call last):'', name @ '': '' @ s],
      missing_perms = [], retry_after = 0, code = 0, message = s\<rparr>"

definition command_error_bases :: "exc_class list" where
  "command_error_bases =
     [OtherClass ''CommandError'', OtherClass ''DiscordException'', OtherClass ''Exception'']"

definition key_error :: py_error where
  "key_error =
     PyError (make_error ''builtins'' ''KeyError''
       [OtherClass ''KeyError'', OtherClass ''LookupError'', OtherClass ''Exception''] ''guild_id'') None"

definition forbidden_error :: py_error where
  "forbidden_error =
     PyError ((make_error ''discord.errors'' ''Forbidden''
       [Forbidden, OtherClass ''HTTPException'', OtherClass ''DiscordException'',
        OtherClass ''Exception'']
       ''403 Forbidden (error code: 50013): Missing Permissions'')\<lparr>code := 50013\<rparr>) None"

definition http_error :: py_error where
  "http_error =
     PyError ((make_error ''discord.errors'' ''HTTPException''
       [OtherClass ''HTTPException'', OtherClass ''DiscordException'', OtherClass ''Exception'']
       ''500 Internal Server Error (error code: 0)'')) None"

definition bot_missing_error :: py_error where
  "bot_missing_error =
     PyError ((make_error ''discord.ext.commands.errors'' ''BotMissingPermissions''
       (BotMissingPermissions # CheckFailure # command_error_bases)
       ''Bot requires permissions'')
       \<lparr>missing_perms := [''kick_members'', ''ban_members'', ''manage_guild'']\<rparr>) None"

definition user_missing_error :: py_error where
  "user_missing_error =
     PyError ((make_error ''discord.ext.commands.errors'' ''MissingPermissions''
       (MissingPermissions # CheckFailure # command_error_bases)
       ''You are missing permissions'')
       \<lparr>missing_perms := [''manage_guild'', ''administrator'']\<rparr>) None"

definition cooldown_error :: py_error where
  "cooldown_error =
     PyError ((make_error ''discord.ext.commands.errors'' ''CommandOnCooldown''
       (CommandOnCooldown # command_error_bases)
       ''You are on cooldown. Try again in 3.50s'')\<lparr>retry_after := 7 / 2\<rparr>) None"

definition no_dm_error :: py_error where
  "no_dm_error =
     PyError (make_error ''discord.ext.commands.errors'' ''NoPrivateMessage''
       (NoPrivateMessage # CheckFailure # command_error_bases)
       ''This command cannot be used in private messages.'') None"

definition role_error :: py_error where
  "role_error =
     PyError (make_error ''helpers.errors'' ''RoleNotFound''
       [RoleNotFound, OtherClass ''Exception''] ''Role 17 not found'') None"

definition database_error :: py_error where
  "database_error =
     PyError (make_error ''helpers.errors'' ''DatabaseMissingData''
       [DatabaseMissingData, OtherClass ''Exception''] ''Guild 5 has no prefix'') None"

definition invoke_error :: py_error where
  "invoke_error =
     PyError (make_error ''discord.ext.commands.errors'' ''CommandInvokeError''
       (OtherClass ''CommandInvokeError'' # command_error_bases)
       ''Command raised an exception: Forbidden'') (Some forbidden_error)"

definition value_error :: py_error where
  "value_error =
     PyError (make_error ''builtins'' ''ValueError''
       [OtherClass ''ValueError'', OtherClass ''Exception''] ''bad license duration'') None"

definition invoke_value_error :: py_error where
  "invoke_value_error =
     PyError (make_error ''discord.ext.commands.errors'' ''CommandInvokeError''
       (OtherClass ''CommandInvokeError'' # command_error_bases)
       ''Command raised an exception: ValueError: bad license duration'') (Some value_error)"

definition license_ctx :: cmd_context where
  "license_ctx =
     \<lparr>command = Some \<lparr>qualified_name = ''license'', has_on_error = False\<rparr>, author_id = 42\<rparr>"

definition guarded_ctx :: cmd_context where
  "guarded_ctx =
     \<lparr>command = Some \<lparr>qualified_name = ''revoke'', has_on_error = True\<rparr>, author_id = 7\<rparr>"

text \<open>A bot that is not ready and whose calls all return; author 42 is a developer.\<close>

definition quiet_bot :: bot where
  "quiet_bot =
     \<lparr>developers = [(''owner'', 42)], is_ready = False, developer_log_channel_id = 900,
      get_channel = (\<lambda>i. None), ctx_send_raises = (\<lambda>m. None),
      author_send_raises = (\<lambda>m. None), reinvoke_raises = None,
      channel_send_raises = (\<lambda>ch em. None)\<rparr>"

text \<open>A ready bot whose log channel resolves and refuses every message.\<close>

definition refused_log_bot :: bot where
  "refused_log_bot =
     quiet_bot\<lparr>developers := [], is_ready := True,
       get_channel := (\<lambda>i. if i = 900 then Some 900 else None),
       channel_send_raises := (\<lambda>ch em. Some forbidden_error)\<rparr>"

text \<open>A ready bot whose log channel accepts the summary and fails on the stack trace.\<close>

definition half_log_bot :: bot where
  "half_log_bot =
     refused_log_bot\<lparr>channel_send_raises :=
       (\<lambda>ch em. case em of Log_embed m c t \<Rightarrow> None | Traceback_embed ls \<Rightarrow> Some http_error)\<rparr>"

text \<open>A bot that may not write to the channel of the command, nor to the author.\<close>

definition muted_bot :: bot where
  "muted_bot =
     quiet_bot\<lparr>developers := [], ctx_send_raises := (\<lambda>m. Some forbidden_error),
       author_send_raises := (\<lambda>m. Some forbidden_error)\<rparr>"

text \<open>A bot whose direct messages and re-invocations fail with a server error.\<close>

definition broken_bot :: bot where
  "broken_bot =
     quiet_bot\<lparr>author_send_raises := (\<lambda>m. Some http_error), reinvoke_raises := Some key_error\<rparr>"

section \<open>The branch taken for a variant\<close>

lemma variant_of_chain:
  "variant_of e =
     (if isinstance e CommandNotFound then Some CommandNotFound
      else if isinstance e BotMissingPermissions then Some BotMissingPermissions
      else if isinstance e DisabledCommand then Some DisabledCommand
      else if isinstance e CommandOnCooldown then Some CommandOnCooldown
      else if isinstance e MissingPermissions then Some MissingPermissions
      else if isinstance e UserInputError then Some UserInputError
      else if isinstance e NoPrivateMessage then Some NoPrivateMessage
      else if isinstance e CheckFailure then Some CheckFailure
      else if isinstance e Forbidden then Some Forbidden
      else if isinstance e RoleNotFound then Some RoleNotFound
      else if isinstance e DefaultGuildRoleNotSet then Some DefaultGuildRoleNotSet
      else if isinstance e DatabaseMissingData then Some DatabaseMissingData
      else None)"
  by (simp add: variant_of_def handler_order_def)

lemma variant_BotMissingPermissionsD:
  assumes "variant_of e = Some BotMissingPermissions"
  shows "\<not> isinstance e CommandNotFound" "isinstance e BotMissingPermissions"
  using assms unfolding variant_of_chain by (simp_all split: if_splits)

lemma variant_CommandOnCooldownD:
  assumes "variant_of e = Some CommandOnCooldown"
  shows "\<not> isinstance e CommandNotFound" "\<not> isinstance e BotMissingPermissions" "\<not> isinstance e DisabledCommand" "isinstance e CommandOnCooldown"
  using assms unfolding variant_of_chain by (simp_all split: if_splits)

lemma variant_MissingPermissionsD:
  assumes "variant_of e = Some MissingPermissions"
  shows "\<not> isinstance e CommandNotFound" "\<not> isinstance e BotMissingPermissions" "\<not> isinstance e DisabledCommand" "\<not> isinstance e CommandOnCooldown" "isinstance e MissingPermissions"
  using assms unfolding variant_of_chain by (simp_all split: if_splits)

lemma variant_NoPrivateMessageD:
  assumes "variant_of e = Some NoPrivateMessage"
  shows "\<not> isinstance e CommandNotFound" "\<not> isinstance e BotMissingPermissions" "\<not> isinstance e DisabledCommand" "\<not> isinstance e CommandOnCooldown" "\<not> isinstance e MissingPermissions" "\<not> isinstance e UserInputError" "isinstance e NoPrivateMessage"
  using assms unfolding variant_of_chain by (simp_all split: if_splits)

lemma variant_ForbiddenD:
  assumes "variant_of e = Some Forbidden"
  shows "\<not> isinstance e CommandNotFound" "\<not> isinstance e BotMissingPermissions" "\<not> isinstance e DisabledCommand" "\<not> isinstance e CommandOnCooldown" "\<not> isinstance e MissingPermissions" "\<not> isinstance e UserInputError" "\<not> isinstance e NoPrivateMessage" "\<not> isinstance e CheckFailure" "isinstance e Forbidden"
  using assms unfolding variant_of_chain by (simp_all split: if_splits)

lemma variant_RoleNotFoundD:
  assumes "variant_of e = Some RoleNotFound"
  shows "\<not> isinstance e CommandNotFound" "\<not> isinstance e BotMissingPermissions" "\<not> isinstance e DisabledCommand" "\<not> isinstance e CommandOnCooldown" "\<not> isinstance e MissingPermissions" "\<not> isinstance e UserInputError" "\<not> isinstance e NoPrivateMessage" "\<not> isinstance e CheckFailure" "\<not> isinstance e Forbidden" "isinstance e RoleNotFound"
  using assms unfolding variant_of_chain by (simp_all split: if_splits)

lemma variant_DatabaseMissingDataD:
  assumes "variant_of e = Some DatabaseMissingData"
  shows "\<not> isinstance e CommandNotFound" "\<not> isinstance e BotMissingPermissions" "\<not> isinstance e DisabledCommand" "\<not> isinstance e CommandOnCooldown" "\<not> isinstance e MissingPermissions" "\<not> isinstance e UserInputError" "\<not> isinstance e NoPrivateMessage" "\<not> isinstance e CheckFailure" "\<not> isinstance e Forbidden" "\<not> isinstance e RoleNotFound" "\<not> isinstance e DefaultGuildRoleNotSet" "isinstance e DatabaseMissingData"
  using assms unfolding variant_of_chain by (simp_all split: if_splits)

lemma variant_UnknownD:
  assumes "variant_of e = None"
  shows "\<not> isinstance e CommandNotFound" "\<not> isinstance e BotMissingPermissions" "\<not> isinstance e DisabledCommand" "\<not> isinstance e CommandOnCooldown" "\<not> isinstance e MissingPermissions" "\<not> isinstance e UserInputError" "\<not> isinstance e NoPrivateMessage" "\<not> isinstance e CheckFailure" "\<not> isinstance e Forbidden" "\<not> isinstance e RoleNotFound" "\<not> isinstance e DefaultGuildRoleNotSet" "\<not> isinstance e DatabaseMissingData"
  using assms unfolding variant_of_chain by (simp_all split: if_splits)

lemma dispatch_BotMissingPermissions:
  assumes "\<not> hasattr_on_error (command ctx)"
    and "variant_of (getattr_original raised) = Some BotMissingPermissions"
  shows "on_command_error b ctx raised =
     ctx_send b (''I need the **'' @ format_missing (missing_perms (attrs (getattr_original raised)))
                 @ ''** permission(s) to run this command.'')"
  using assms(1) variant_BotMissingPermissionsD [OF assms(2)]
  by (simp add: on_command_error_def Let_def)

lemma dispatch_CommandOnCooldown:
  assumes "\<not> hasattr_on_error (command ctx)"
    and "variant_of (getattr_original raised) = Some CommandOnCooldown"
  shows "on_command_error b ctx raised =
     (if author_id ctx \<in> set (map snd (developers b))
      then try_except (reinvoke b) (\<lambda>e. True) (\<lambda>e. ctx_send b (str_error e))
      else ctx_send b (cooldown_reply (retry_after (attrs (getattr_original raised)))))"
  using assms(1) variant_CommandOnCooldownD [OF assms(2)]
  by (simp add: on_command_error_def Let_def cooldown_reply_def)

lemma dispatch_MissingPermissions:
  assumes "\<not> hasattr_on_error (command ctx)"
    and "variant_of (getattr_original raised) = Some MissingPermissions"
  shows "on_command_error b ctx raised =
     ctx_send b (''You need the **'' @ format_missing (missing_perms (attrs (getattr_original raised)))
                 @ ''** permission(s) to use this command.'')"
  using assms(1) variant_MissingPermissionsD [OF assms(2)]
  by (simp add: on_command_error_def Let_def)

lemma dispatch_NoPrivateMessage:
  assumes "\<not> hasattr_on_error (command ctx)"
    and "variant_of (getattr_original raised) = Some NoPrivateMessage"
  shows "on_command_error b ctx raised =
     try_except (author_send b dm_only_text) (\<lambda>e. isinstance e Forbidden) (\<lambda>e. returns)"
  using assms(1) variant_NoPrivateMessageD [OF assms(2)]
  by (simp add: on_command_error_def Let_def dm_only_text_def)

lemma dispatch_Forbidden:
  assumes "\<not> hasattr_on_error (command ctx)"
    and "variant_of (getattr_original raised) = Some Forbidden"
  shows "on_command_error b ctx raised =
     ctx_send b (forbidden_reply (str_error (getattr_original raised))
                                 (code (attrs (getattr_original raised))))"
  using assms(1) variant_ForbiddenD [OF assms(2)]
  by (simp add: on_command_error_def Let_def forbidden_reply_def)

lemma dispatch_RoleNotFound:
  assumes "\<not> hasattr_on_error (command ctx)"
    and "variant_of (getattr_original raised) = Some RoleNotFound"
  shows "on_command_error b ctx raised = ctx_send b (message (attrs (getattr_original raised)))"
  using assms(1) variant_RoleNotFoundD [OF assms(2)]
  by (simp add: on_command_error_def Let_def)

lemma dispatch_DatabaseMissingData:
  assumes "\<not> hasattr_on_error (command ctx)"
    and "variant_of (getattr_original raised) = Some DatabaseMissingData"
  shows "on_command_error b ctx raised =
     and_then (ctx_send b (''Critical database error: '' @ message (attrs (getattr_original raised))))
              (log_traceback b ctx (getattr_original raised))"
  using assms(1) variant_DatabaseMissingDataD [OF assms(2)]
  by (simp add: on_command_error_def Let_def)

lemma dispatch_Unknown:
  assumes "\<not> hasattr_on_error (command ctx)"
    and "variant_of (getattr_original raised) = None"
  shows "on_command_error b ctx raised =
     and_then (log_traceback b ctx (getattr_original raised))
       (ctx_send b (unknown_reply (type_name (attrs (getattr_original raised)))
                      (str_command (command ctx)) (str_error (getattr_original raised))))"
  using assms(1) variant_UnknownD [OF assms(2)]
  by (simp add: on_command_error_def Let_def unknown_reply_def)

text \<open>
  The handler reads only the attributes of the error it unwrapped.
\<close>

lemma on_command_error_attrs:
  "attrs (getattr_original r1) = attrs (getattr_original r2) \<Longrightarrow>
   on_command_error b ctx r1 = on_command_error b ctx r2"
  by (simp add: on_command_error_def Let_def isinstance_def str_error_def log_traceback_def
      exception_message_def str_type_def cong: option.case_cong if_cong)

text \<open>The chain of tests and the table by variant are the same responder.\<close>

lemma respond_chain:
  "respond b ctx (variant_of e) e =
     (if isinstance e CommandNotFound then respond b ctx (Some CommandNotFound) e
      else if isinstance e BotMissingPermissions then respond b ctx (Some BotMissingPermissions) e
      else if isinstance e DisabledCommand then respond b ctx (Some DisabledCommand) e
      else if isinstance e CommandOnCooldown then respond b ctx (Some CommandOnCooldown) e
      else if isinstance e MissingPermissions then respond b ctx (Some MissingPermissions) e
      else if isinstance e UserInputError then respond b ctx (Some UserInputError) e
      else if isinstance e NoPrivateMessage then respond b ctx (Some NoPrivateMessage) e
      else if isinstance e CheckFailure then respond b ctx (Some CheckFailure) e
      else if isinstance e Forbidden then respond b ctx (Some Forbidden) e
      else if isinstance e RoleNotFound then respond b ctx (Some RoleNotFound) e
      else if isinstance e DefaultGuildRoleNotSet then respond b ctx (Some DefaultGuildRoleNotSet) e
      else if isinstance e DatabaseMissingData then respond b ctx (Some DatabaseMissingData) e
      else respond b ctx None e)"
  unfolding variant_of_chain by (simp only: if_distrib [of "\<lambda>v. respond b ctx v e"])

lemma on_command_error_respond:
  "on_command_error b ctx raised =
     (if hasattr_on_error (command ctx) then ([], None)
      else respond b ctx (variant_of (getattr_original raised)) (getattr_original raised))"
  unfolding respond_chain
  by (simp add: on_command_error_def Let_def returns_def cooldown_reply_def dm_only_text_def
      forbidden_reply_def unknown_reply_def cong: if_cong)

section \<open>What the diagnostic log does\<close>

lemma log_traceback_cases:
  "log_traceback b ctx error =
     (let logged = [LoggerCritical (exception_message ctx error),
                    LoggerCriticalLines (format_exception (attrs error))];
          summary = Log_embed (exception_message ctx error) ctx ''Command error!'';
          trace = Traceback_embed (format_exception (attrs error))
      in if is_ready b then
           (case get_channel b (developer_log_channel_id b) of
              None \<Rightarrow> (logged, None)
            | Some ch \<Rightarrow>
                (case channel_send_raises b ch summary of
                   Some e \<Rightarrow> (logged @ [ChannelSend ch summary], Some e)
                 | None \<Rightarrow> (logged @ [ChannelSend ch summary, ChannelSend ch trace],
                            channel_send_raises b ch trace)))
         else (logged, None))"
  by (simp add: log_traceback_def Let_def and_then_def call_def returns_def channel_send_def
      split: option.splits)

lemma log_traceback_take2:
  "take 2 (fst (log_traceback b ctx error)) =
     [LoggerCritical (exception_message ctx error),
      LoggerCriticalLines (format_exception (attrs error))]"
  by (simp add: log_traceback_cases Let_def split: option.splits)

lemma log_traceback_no_ctx_send:
  "\<not> list_ex is_ctx_send (fst (log_traceback b ctx error))"
  by (simp add: log_traceback_cases Let_def split: option.splits)

lemma log_traceback_has_log:
  "list_ex is_log_event (fst (log_traceback b ctx error))"
  by (simp add: log_traceback_cases Let_def split: option.splits)

lemma log_traceback_unresolved:
  "\<not> is_ready b \<or> get_channel b (developer_log_channel_id b) = None \<Longrightarrow>
   log_traceback b ctx error =
     ([LoggerCritical (exception_message ctx error),
       LoggerCriticalLines (format_exception (attrs error))], None)"
  by (auto simp add: log_traceback_cases Let_def split: option.splits)

lemma log_traceback_raises:
  "snd (log_traceback b ctx error) = Some e \<Longrightarrow>
   is_ready b \<and>
   (case get_channel b (developer_log_channel_id b) of
      None \<Rightarrow> False
    | Some ch \<Rightarrow>
        channel_send_raises b ch (Log_embed (exception_message ctx error) ctx ''Command error!'') = Some e
        \<or> channel_send_raises b ch (Traceback_embed (format_exception (attrs error))) = Some e)"
  by (simp add: log_traceback_cases Let_def split: option.splits if_splits)

section \<open>Joining and normalising\<close>

lemma replace_underscore:
  "replace ''_'' '' '' s = map (\<lambda>c. if c = CHR ''_'' then CHR '' '' else c) s"
  by (induction s) (simp_all add: replace_def)

lemma join_butlast_serial:
  "2 \<le> length xs \<Longrightarrow> join sep (butlast xs) @ '', and '' @ last xs = serial_list sep xs"
  by (induction sep xs rule: serial_list.induct) simp_all

lemma normalize_examples:
  "normalize_perm ''kick_members'' = ''Kick Members''"
  "normalize_perm ''ban_members'' = ''Ban Members''"
  "normalize_perm ''manage_guild'' = ''Manage Server''"
  "normalize_perm ''administrator'' = ''Administrator''"
  by (simp_all add: normalize_perm_def title_def replace_def to_upper_def to_lower_def
      is_cased_def lowercase_letters_def uppercase_letters_def)

section \<open>Facts about the example values\<close>

lemma license_ctx_unguarded: "\<not> hasattr_on_error (command license_ctx)"
  by (simp add: license_ctx_def hasattr_on_error_def)

lemma str_command_license: "str_command (command license_ctx) = ''license''"
  by (simp add: license_ctx_def str_command_def)

lemma invoke_error_original: "getattr_original invoke_error = forbidden_error"
  by (simp add: invoke_error_def getattr_original_def)

lemma forbidden_error_variant: "variant_of forbidden_error = Some Forbidden"
  by (simp add: forbidden_error_def make_error_def variant_of_chain isinstance_def)

lemma no_dm_error_variant: "variant_of (getattr_original no_dm_error) = Some NoPrivateMessage"
  by (simp add: no_dm_error_def make_error_def getattr_original_def variant_of_chain
      isinstance_def command_error_bases_def)

lemma cooldown_error_variant: "variant_of (getattr_original cooldown_error) = Some CommandOnCooldown"
  by (simp add: cooldown_error_def make_error_def getattr_original_def variant_of_chain
      isinstance_def command_error_bases_def)

lemma key_error_variant: "variant_of (getattr_original key_error) = None"
  by (simp add: key_error_def make_error_def getattr_original_def variant_of_chain
      isinstance_def)

lemma key_error_unwrapped: "getattr_original key_error = key_error"
  by (simp add: key_error_def getattr_original_def)

lemma database_error_variant:
  "variant_of (getattr_original database_error) = Some DatabaseMissingData"
  by (simp add: database_error_def make_error_def getattr_original_def variant_of_chain
      isinstance_def)

lemma role_error_variant: "variant_of (getattr_original role_error) = Some RoleNotFound"
  by (simp add: role_error_def make_error_def getattr_original_def variant_of_chain
      isinstance_def)

lemma bot_missing_error_variant:
  "variant_of (getattr_original bot_missing_error) = Some BotMissingPermissions"
  by (simp add: bot_missing_error_def make_error_def getattr_original_def variant_of_chain
      isinstance_def command_error_bases_def)

lemma user_missing_error_variant:
  "variant_of (getattr_original user_missing_error) = Some MissingPermissions"
  by (simp add: user_missing_error_def make_error_def getattr_original_def variant_of_chain
      isinstance_def command_error_bases_def)

lemma database_error_message:
  "message (attrs (getattr_original database_error)) = ''Guild 5 has no prefix''"
  "message (attrs (getattr_original role_error)) = ''Role 17 not found''"
  by (simp_all add: database_error_def role_error_def make_error_def getattr_original_def)

lemma key_error_message:
  "exception_message license_ctx key_error
     = ''Ignoring <class '' @ [CHR 0x27] @ ''KeyError'' @ [CHR 0x27]
       @ ''> exception in command '' @ [CHR 0x27] @ ''license'' @ [CHR 0x27] @ '':guild_id''"
  by (simp add: exception_message_def str_type_def str_error_def key_error_def make_error_def
      str_command_license)

lemma key_error_lines:
  "format_exception (attrs key_error)
     = [''Traceback (most recent call last):'', ''KeyError: guild_id'']"
  by (simp add: key_error_def make_error_def)

lemma key_error_reply:
  "''Ignoring exception **KeyError** that happened while processing command **license**:''
     @ [CHR 0x0A] @ ''guild_id''
   = ''Ignoring exception **'' @ type_name (attrs (getattr_original key_error))
     @ ''** that happened while processing command **''
     @ str_command (command license_ctx) @ ''**:'' @ [CHR 0x0A]
     @ str_error (getattr_original key_error)"
  by (simp add: key_error_def make_error_def getattr_original_def str_error_def
      str_command_license)

lemma quiet_bot_fields:
  "\<not> is_ready quiet_bot" "ctx_send_raises quiet_bot m = None"
  by (simp_all add: quiet_bot_def)

lemma refused_log_bot_fields:
  "is_ready refused_log_bot"
  "get_channel refused_log_bot (developer_log_channel_id refused_log_bot) = Some 900"
  "channel_send_raises refused_log_bot ch em = Some forbidden_error"
  "ctx_send_raises refused_log_bot m = None"
  by (simp_all add: refused_log_bot_def quiet_bot_def)

lemma half_log_bot_fields:
  "is_ready half_log_bot"
  "get_channel half_log_bot (developer_log_channel_id half_log_bot) = Some 900"
  "channel_send_raises half_log_bot ch (Log_embed m c t) = None"
  "channel_send_raises half_log_bot ch (Traceback_embed ls) = Some http_error"
  "ctx_send_raises half_log_bot m = None"
  by (simp_all add: half_log_bot_def refused_log_bot_def quiet_bot_def)

lemma muted_bot_fields:
  "\<not> is_ready muted_bot" "ctx_send_raises muted_bot m = Some forbidden_error"
  by (simp_all add: muted_bot_def quiet_bot_def)

lemma value_error_variant: "variant_of value_error = None"
  by (simp add: value_error_def make_error_def variant_of_chain isinstance_def)

lemma invoke_error_variant: "variant_of invoke_error = None"
  by (simp add: invoke_error_def make_error_def variant_of_chain isinstance_def
      command_error_bases_def)

lemma value_error_message:
  "exception_message license_ctx value_error
     = ''Ignoring <class '' @ [CHR 0x27] @ ''ValueError'' @ [CHR 0x27]
       @ ''> exception in command '' @ [CHR 0x27] @ ''license'' @ [CHR 0x27]
       @ '':bad license duration''"
  by (simp add: exception_message_def str_type_def str_error_def value_error_def make_error_def
      str_command_license)

lemma respond_forbidden_error:
  "respond quiet_bot license_ctx (Some Forbidden) forbidden_error =
     ([CtxSend (''403 Forbidden (error code: 50013): Missing Permissions.'' @ [CHR 0x0A]
                @ ''Check role hierarchy - I can only manage roles below me.'')], None)"
  by (simp add: ctx_send_def call_def forbidden_reply_def forbidden_error_def make_error_def
      str_error_def quiet_bot_fields)

lemma respond_value_error:
  "respond quiet_bot license_ctx None value_error =
     ([LoggerCritical (''Ignoring <class '' @ [CHR 0x27] @ ''ValueError'' @ [CHR 0x27]
          @ ''> exception in command '' @ [CHR 0x27] @ ''license'' @ [CHR 0x27]
          @ '':bad license duration''),
       LoggerCriticalLines
         [''Traceback (most recent call last):'', ''ValueError: bad license duration''],
       CtxSend (''Ignoring exception **ValueError** that happened while processing command **license**:''
                @ [CHR 0x0A] @ ''bad license duration'')], None)"
proof -
  have l: "log_traceback quiet_bot license_ctx value_error =
             ([LoggerCritical (exception_message license_ctx value_error),
               LoggerCriticalLines (format_exception (attrs value_error))], None)"
    by (simp add: log_traceback_cases Let_def quiet_bot_fields)
  have t: "format_exception (attrs value_error)
             = [''Traceback (most recent call last):'', ''ValueError: bad license duration'']"
    "type_name (attrs value_error) = ''ValueError''"
    "str_error value_error = ''bad license duration''"
    by (simp_all add: value_error_def make_error_def str_error_def)
  show ?thesis
    by (simp add: l t value_error_message and_then_def ctx_send_def call_def unknown_reply_def
        str_command_license quiet_bot_fields)
qed

section \<open>The list of missing permissions\<close>

text \<open>
  C1, as the code has it. Every name is normalised: each underscore becomes a space, then
  each \<open>guild\<close> becomes \<open>server\<close>, then the result is title-cased. The names are
  joined in the order given. One name stands alone; two names give \<open>A and B\<close>; more than
  two give the names before the last joined by \<open>**, **\<close> (a comma between two bold
  markers, not a bare comma) and then \<open>, and\<close> with the last name: \<open>A**, **B, and C\<close>.
  The replies of the BotMissingPermissions and MissingPermissions branches put that text
  between \<open>I need the **\<close> or \<open>You need the **\<close> and the rest of the sentence.
\<close>

theorem format_missing_pattern:
  "format_missing [a] = normalize_perm a
   \<and> format_missing [a, c] = normalize_perm a @ '' and '' @ normalize_perm c
   \<and> (2 < length perms \<longrightarrow>
        format_missing perms = serial_list ''**, **'' (map normalize_perm perms)
        \<and> format_missing perms =
            join ''**, **'' (map normalize_perm (butlast perms)) @ '', and ''
            @ normalize_perm (last perms))
   \<and> normalize_perm p =
        title (replace ''guild'' ''server''
          (map (\<lambda>ch. if ch = CHR ''_'' then CHR '' '' else ch) p))
   \<and> (\<not> hasattr_on_error (command ctx)
        \<and> variant_of (getattr_original raised) = Some BotMissingPermissions \<longrightarrow>
        fst (on_command_error b ctx raised) =
          [CtxSend (''I need the **''
                    @ format_missing (missing_perms (attrs (getattr_original raised)))
                    @ ''** permission(s) to run this command.'')])
   \<and> (\<not> hasattr_on_error (command ctx)
        \<and> variant_of (getattr_original raised) = Some MissingPermissions \<longrightarrow>
        fst (on_command_error b ctx raised) =
          [CtxSend (''You need the **''
                    @ format_missing (missing_perms (attrs (getattr_original raised)))
                    @ ''** permission(s) to use this command.'')])"
proof (intro conjI impI)
  show "format_missing [a] = normalize_perm a"
    by (simp add: format_missing_def)
  show "format_missing [a, c] = normalize_perm a @ '' and '' @ normalize_perm c"
    by (simp add: format_missing_def)
  show "normalize_perm p =
        title (replace ''guild'' ''server''
          (map (\<lambda>ch. if ch = CHR ''_'' then CHR '' '' else ch) p))"
    by (simp only: normalize_perm_def replace_underscore)
next
  assume long: "2 < length perms"
  then have ne: "perms \<noteq> []" by auto
  have "format_missing perms =
          join ''**, **'' (butlast (map normalize_perm perms)) @ '', and ''
          @ last (map normalize_perm perms)"
    using long by (simp add: format_missing_def Let_def)
  moreover have "2 \<le> length (map normalize_perm perms)"
    using long by simp
  ultimately show "format_missing perms = serial_list ''**, **'' (map normalize_perm perms)"
    by (simp only: join_butlast_serial)
  show "format_missing perms =
          join ''**, **'' (map normalize_perm (butlast perms)) @ '', and ''
          @ normalize_perm (last perms)"
    using long ne by (simp add: format_missing_def Let_def map_butlast last_map)
next
  assume "\<not> hasattr_on_error (command ctx)
        \<and> variant_of (getattr_original raised) = Some BotMissingPermissions"
  then show "fst (on_command_error b ctx raised) =
          [CtxSend (''I need the **''
                    @ format_missing (missing_perms (attrs (getattr_original raised)))
                    @ ''** permission(s) to run this command.'')]"
    by (simp add: dispatch_BotMissingPermissions ctx_send_def call_def)
next
  assume "\<not> hasattr_on_error (command ctx)
        \<and> variant_of (getattr_original raised) = Some MissingPermissions"
  then show "fst (on_command_error b ctx raised) =
          [CtxSend (''You need the **''
                    @ format_missing (missing_perms (attrs (getattr_original raised)))
                    @ ''** permission(s) to use this command.'')]"
    by (simp add: dispatch_MissingPermissions ctx_send_def call_def)
qed

theorem format_missing_pattern_witness:
  "2 < length [''kick_members'', ''ban_members'', ''manage_guild'']
   \<and> \<not> hasattr_on_error (command license_ctx)
   \<and> variant_of (getattr_original bot_missing_error) = Some BotMissingPermissions
   \<and> variant_of (getattr_original user_missing_error) = Some MissingPermissions
   \<and> format_missing [''manage_guild''] = ''Manage Server''
   \<and> format_missing [''manage_guild'', ''administrator''] = ''Manage Server and Administrator''
   \<and> format_missing [''kick_members'', ''ban_members'', ''manage_guild'']
       = ''Kick Members**, **Ban Members, and Manage Server''
   \<and> fst (on_command_error quiet_bot license_ctx bot_missing_error) =
       [CtxSend ''I need the **Kick Members**, **Ban Members, and Manage Server** permission(s) to run this command.'']
   \<and> fst (on_command_error quiet_bot license_ctx user_missing_error) =
       [CtxSend ''You need the **Manage Server and Administrator** permission(s) to use this command.'']"
proof -
  have m: "missing_perms (attrs (getattr_original bot_missing_error))
             = [''kick_members'', ''ban_members'', ''manage_guild'']"
    "missing_perms (attrs (getattr_original user_missing_error))
             = [''manage_guild'', ''administrator'']"
    by (simp_all add: bot_missing_error_def user_missing_error_def make_error_def
        getattr_original_def)
  show ?thesis
    using format_missing_pattern [of "''manage_guild''" "''administrator''"
        "[''kick_members'', ''ban_members'', ''manage_guild'']" "''manage_guild''"
        license_ctx bot_missing_error quiet_bot]
      format_missing_pattern [of "''manage_guild''" "''administrator''"
        "[''kick_members'', ''ban_members'', ''manage_guild'']" "''manage_guild''"
        license_ctx user_missing_error quiet_bot]
      license_ctx_unguarded bot_missing_error_variant user_missing_error_variant
    by (simp add: m normalize_examples)
qed

text \<open>
  With a bare comma and a space as separator, three permissions would read
  \<open>Kick Members, Ban Members, and Manage Server\<close>; the handler's text has the bold
  markers around the first comma.
\<close>

theorem format_missing_three_counterexample:
  "format_missing [''kick_members'', ''ban_members'', ''manage_guild'']
     = ''Kick Members**, **Ban Members, and Manage Server''
   \<and> serial_list '', '' (map normalize_perm [''kick_members'', ''ban_members'', ''manage_guild''])
     = ''Kick Members, Ban Members, and Manage Server''
   \<and> format_missing [''kick_members'', ''ban_members'', ''manage_guild'']
     \<noteq> serial_list '', '' (map normalize_perm [''kick_members'', ''ban_members'', ''manage_guild''])"
  by (simp add: format_missing_def normalize_examples)

section \<open>A failure of the diagnostic log\<close>

text \<open>
  C2, as the code has it. The handler does not catch what \<open>log_traceback\<close> raises: the
  exception leaves \<open>on_command_error\<close>. In the DatabaseMissingData branch the reply is sent
  before the log is written, so a reply that was delivered stays delivered; in the fallback
  for unknown errors the log is written first, and the reply is not sent at all.
\<close>

theorem log_failure_propagates:
  assumes "\<not> hasattr_on_error (command ctx)"
    and "error = getattr_original raised"
    and "snd (log_traceback b ctx error) = Some e"
    and "reply = ''Critical database error: '' @ message (attrs error)"
  shows "(variant_of error = Some DatabaseMissingData \<and> ctx_send_raises b reply = None \<longrightarrow>
            on_command_error b ctx raised =
              (CtxSend reply # fst (log_traceback b ctx error), Some e))
       \<and> (variant_of error = None \<longrightarrow>
            on_command_error b ctx raised = (fst (log_traceback b ctx error), Some e)
            \<and> \<not> list_ex is_ctx_send (fst (on_command_error b ctx raised)))"
proof (intro conjI impI)
  assume v: "variant_of error = Some DatabaseMissingData \<and> ctx_send_raises b reply = None"
  have d: "on_command_error b ctx raised = and_then (ctx_send b reply) (log_traceback b ctx error)"
    using dispatch_DatabaseMissingData [OF assms(1), of raised b] v assms(2,4) by simp
  show "on_command_error b ctx raised =
          (CtxSend reply # fst (log_traceback b ctx error), Some e)"
    using v assms(3) by (simp add: d and_then_def ctx_send_def call_def)
next
  assume v: "variant_of error = None"
  have d: "on_command_error b ctx raised =
             and_then (log_traceback b ctx error)
               (ctx_send b (unknown_reply (type_name (attrs error)) (str_command (command ctx))
                              (str_error error)))"
    using dispatch_Unknown [OF assms(1), of raised b] v assms(2) by simp
  show o: "on_command_error b ctx raised = (fst (log_traceback b ctx error), Some e)"
    using assms(3) by (simp add: d and_then_def prod_eq_iff)
  show "\<not> list_ex is_ctx_send (fst (on_command_error b ctx raised))"
    using log_traceback_no_ctx_send [of b ctx error] by (simp add: o)
qed

theorem log_failure_propagates_witness:
  "\<not> hasattr_on_error (command license_ctx)
   \<and> snd (log_traceback half_log_bot license_ctx database_error) = Some http_error
   \<and> snd (log_traceback half_log_bot license_ctx key_error) = Some http_error
   \<and> variant_of (getattr_original database_error) = Some DatabaseMissingData
   \<and> variant_of (getattr_original key_error) = None
   \<and> on_command_error half_log_bot license_ctx database_error =
       (CtxSend ''Critical database error: Guild 5 has no prefix''
          # fst (log_traceback half_log_bot license_ctx database_error), Some http_error)
   \<and> on_command_error half_log_bot license_ctx key_error =
       (fst (log_traceback half_log_bot license_ctx key_error), Some http_error)"
proof -
  have g: "getattr_original database_error = database_error"
    by (simp add: database_error_def getattr_original_def)
  have e: "database_error = getattr_original database_error"
    "key_error = getattr_original key_error"
    by (simp_all add: g key_error_unwrapped)
  have l: "snd (log_traceback half_log_bot license_ctx database_error) = Some http_error"
    "snd (log_traceback half_log_bot license_ctx key_error) = Some http_error"
    by (simp_all add: log_traceback_cases Let_def half_log_bot_fields)
  have r: "''Critical database error: Guild 5 has no prefix''
             = ''Critical database error: '' @ message (attrs database_error)"
    "''Critical database error: guild_id''
             = ''Critical database error: '' @ message (attrs key_error)"
    by (simp_all add: database_error_def key_error_def make_error_def)
  have v: "variant_of database_error = Some DatabaseMissingData" "variant_of key_error = None"
    using database_error_variant key_error_variant by (simp_all add: g key_error_unwrapped)
  show ?thesis
    using log_failure_propagates [OF license_ctx_unguarded e(1) l(1) r(1)]
      log_failure_propagates [OF license_ctx_unguarded e(2) l(2) r(2)]
      license_ctx_unguarded l v
    by (simp add: half_log_bot_fields g key_error_unwrapped)
qed

text \<open>
  An unknown error, a log channel that takes the summary and fails on the stack trace: the
  handler ends with the channel's exception and has sent no reply.
\<close>

theorem log_failure_crashes_counterexample:
  "\<not> hasattr_on_error (command license_ctx)
   \<and> variant_of (getattr_original key_error) = None
   \<and> snd (log_traceback half_log_bot license_ctx key_error) = Some http_error
   \<and> snd (on_command_error half_log_bot license_ctx key_error) = Some http_error
   \<and> \<not> list_ex is_ctx_send (fst (on_command_error half_log_bot license_ctx key_error))"
  using license_ctx_unguarded key_error_variant
  by (simp add: dispatch_Unknown key_error_unwrapped and_then_def log_traceback_cases Let_def
      half_log_bot_fields)

section \<open>A command on cooldown\<close>

text \<open>
  C3. For a CommandOnCooldown error: when the author's id is among the developers, the
  handler re-invokes the command and sends nothing, unless the re-invocation raises, in which
  case it sends the text of that exception; when the author is not a developer, the handler
  sends \<open>This command is on cooldown, please retry in Ns.\<close>, with \<open>N\<close> the ceiling of
  \<open>retry_after\<close>, and does not re-invoke.
\<close>

theorem cooldown_developer_bypass:
  assumes "\<not> hasattr_on_error (command ctx)"
    and "variant_of (getattr_original raised) = Some CommandOnCooldown"
    and "seconds = retry_after (attrs (getattr_original raised))"
  shows "(author_id ctx \<in> snd ` set (developers b) \<longrightarrow>
            on_command_error b ctx raised =
              (case reinvoke_raises b of
                 None \<Rightarrow> ([Reinvoke], None)
               | Some e \<Rightarrow> ([Reinvoke, CtxSend (str_error e)], ctx_send_raises b (str_error e))))
       \<and> (author_id ctx \<notin> snd ` set (developers b) \<longrightarrow>
            on_command_error b ctx raised =
              ([CtxSend (''This command is on cooldown, please retry in ''
                         @ str_int \<lceil>seconds\<rceil> @ ''s.'')],
               ctx_send_raises b (''This command is on cooldown, please retry in ''
                         @ str_int \<lceil>seconds\<rceil> @ ''s.'')))"
  using dispatch_CommandOnCooldown [OF assms(1,2), of b] assms(3)
  by (simp add: try_except_def reinvoke_def ctx_send_def call_def cooldown_reply_def
      split: option.splits)

theorem cooldown_developer_bypass_witness:
  "\<not> hasattr_on_error (command license_ctx)
   \<and> variant_of (getattr_original cooldown_error) = Some CommandOnCooldown
   \<and> on_command_error quiet_bot license_ctx cooldown_error = ([Reinvoke], None)
   \<and> on_command_error broken_bot license_ctx cooldown_error =
       ([Reinvoke, CtxSend ''guild_id''], None)
   \<and> on_command_error refused_log_bot license_ctx cooldown_error =
       ([CtxSend ''This command is on cooldown, please retry in 4s.''], None)"
proof -
  have s: "7 / 2 = retry_after (attrs (getattr_original cooldown_error))"
    by (simp add: cooldown_error_def make_error_def getattr_original_def)
  have dev: "author_id license_ctx \<in> snd ` set (developers quiet_bot)"
    "author_id license_ctx \<in> snd ` set (developers broken_bot)"
    "author_id license_ctx \<notin> snd ` set (developers refused_log_bot)"
    by (simp_all add: license_ctx_def quiet_bot_def broken_bot_def refused_log_bot_def)
  have r: "reinvoke_raises quiet_bot = None" "reinvoke_raises broken_bot = Some key_error"
    "ctx_send_raises broken_bot (str_error key_error) = None"
    "str_error key_error = ''guild_id''"
    by (simp_all add: quiet_bot_def broken_bot_def key_error_def make_error_def str_error_def)
  have c: "''This command is on cooldown, please retry in '' @ str_int \<lceil>7 / 2 :: real\<rceil> @ ''s.''
             = ''This command is on cooldown, please retry in 4s.''"
    by (simp add: str_int_def digit_char_def)
  have q: "ctx_send_raises refused_log_bot ''This command is on cooldown, please retry in 4s.'' = None"
    by (simp add: refused_log_bot_def quiet_bot_def)
  show ?thesis
    using cooldown_developer_bypass [OF license_ctx_unguarded cooldown_error_variant s, of quiet_bot]
      cooldown_developer_bypass [OF license_ctx_unguarded cooldown_error_variant s, of broken_bot]
      cooldown_developer_bypass [OF license_ctx_unguarded cooldown_error_variant s, of refused_log_bot]
      license_ctx_unguarded cooldown_error_variant dev r q
    unfolding c
    by simp
qed

section \<open>An unknown error\<close>

text \<open>
  C4, as the code has it. For an error of no recognised class the two entries of the
  process log are always written, first. If \<open>log_traceback\<close> returns, the reply
  \<open>Ignoring exception **T** that happened while processing command **C**:\<close>, a line
  break and the text of the error is sent after the log; no other reply is ever sent. If
  \<open>log_traceback\<close> raises, no reply is sent.
\<close>

theorem unknown_fallback:
  assumes "\<not> hasattr_on_error (command ctx)"
    and "error = getattr_original raised"
    and "variant_of error = None"
    and "reply = ''Ignoring exception **'' @ type_name (attrs error)
                 @ ''** that happened while processing command **''
                 @ str_command (command ctx) @ ''**:'' @ [CHR 0x0A] @ str_error error"
  shows "take 2 (fst (on_command_error b ctx raised)) =
           [LoggerCritical (exception_message ctx error),
            LoggerCriticalLines (format_exception (attrs error))]
       \<and> (snd (log_traceback b ctx error) = None \<longrightarrow>
            on_command_error b ctx raised =
              (fst (log_traceback b ctx error) @ [CtxSend reply], ctx_send_raises b reply))
       \<and> (\<forall>m. CtxSend m \<in> set (fst (on_command_error b ctx raised)) \<longrightarrow> m = reply)"
proof -
  have d: "on_command_error b ctx raised = and_then (log_traceback b ctx error) (ctx_send b reply)"
    using dispatch_Unknown [OF assms(1), of raised b] assms(2,3,4)
    by (simp add: unknown_reply_def)
  have two: "take 2 (fst (log_traceback b ctx error)) =
           [LoggerCritical (exception_message ctx error),
            LoggerCriticalLines (format_exception (attrs error))]"
    by (rule log_traceback_take2)
  have len: "2 \<le> length (fst (log_traceback b ctx error))"
    by (simp add: log_traceback_cases Let_def split: option.splits)
  have no: "CtxSend m \<notin> set (fst (log_traceback b ctx error))" for m
    using log_traceback_no_ctx_send [of b ctx error]
    by (auto simp add: list_ex_iff)
  show ?thesis
  proof (intro conjI impI allI)
    show "take 2 (fst (on_command_error b ctx raised)) =
           [LoggerCritical (exception_message ctx error),
            LoggerCriticalLines (format_exception (attrs error))]"
      using two len by (simp add: d and_then_def ctx_send_def call_def split: option.splits)
  next
    assume "snd (log_traceback b ctx error) = None"
    then show "on_command_error b ctx raised =
              (fst (log_traceback b ctx error) @ [CtxSend reply], ctx_send_raises b reply)"
      by (simp add: d and_then_def ctx_send_def call_def)
  next
    fix m
    assume "CtxSend m \<in> set (fst (on_command_error b ctx raised))"
    then show "m = reply"
      using no [of m] by (simp add: d and_then_def ctx_send_def call_def split: option.splits)
  qed
qed

theorem unknown_fallback_witness:
  "\<not> hasattr_on_error (command license_ctx)
   \<and> variant_of (getattr_original key_error) = None
   \<and> snd (log_traceback quiet_bot license_ctx key_error) = None
   \<and> on_command_error quiet_bot license_ctx key_error =
       ([LoggerCritical (exception_message license_ctx key_error),
         LoggerCriticalLines (format_exception (attrs key_error)),
         CtxSend (''Ignoring exception **KeyError** that happened while processing command **license**:''
                  @ [CHR 0x0A] @ ''guild_id'')], None)"
proof -
  have e: "getattr_original key_error = getattr_original key_error" by simp
  have l: "log_traceback quiet_bot license_ctx key_error =
             ([LoggerCritical (exception_message license_ctx key_error),
               LoggerCriticalLines (format_exception (attrs key_error))], None)"
    by (simp add: log_traceback_cases Let_def quiet_bot_fields)
  show ?thesis
    using unknown_fallback [OF license_ctx_unguarded e key_error_variant key_error_reply,
        of quiet_bot, THEN conjunct2, THEN conjunct1]
      license_ctx_unguarded key_error_variant
    by (simp add: key_error_unwrapped l quiet_bot_fields)
qed

text \<open>
  An unknown error and a log channel that refuses the summary: the process log and the
  attempt on the channel are all there is, without a reply.
\<close>

theorem unknown_reply_missing_counterexample:
  "\<not> hasattr_on_error (command license_ctx)
   \<and> variant_of (getattr_original key_error) = None
   \<and> on_command_error refused_log_bot license_ctx key_error =
       ([LoggerCritical (exception_message license_ctx key_error),
         LoggerCriticalLines (format_exception (attrs key_error)),
         ChannelSend 900 (Log_embed (exception_message license_ctx key_error) license_ctx
                            ''Command error!'')],
        Some forbidden_error)
   \<and> \<not> list_ex is_ctx_send (fst (on_command_error refused_log_bot license_ctx key_error))"
  using license_ctx_unguarded key_error_variant
  by (simp add: dispatch_Unknown key_error_unwrapped and_then_def log_traceback_cases Let_def
      refused_log_bot_fields)

section \<open>A command with its own error handler\<close>

text \<open>
  C5. When the command of the context has an \<open>on_error\<close> attribute, the handler returns
  at once, whatever the error and whatever the bot: it makes no call at all (no reply, no
  direct message, no re-invocation, no log) and raises nothing.
\<close>

theorem local_handler_defers:
  "hasattr_on_error (command ctx) \<Longrightarrow> on_command_error b ctx raised = ([], None)"
  by (simp add: on_command_error_def returns_def)

theorem local_handler_defers_witness:
  "hasattr_on_error (command guarded_ctx)
   \<and> on_command_error refused_log_bot guarded_ctx key_error = ([], None)"
  using local_handler_defers [of guarded_ctx refused_log_bot key_error]
  by (simp add: guarded_ctx_def hasattr_on_error_def)

section \<open>Database errors and missing roles\<close>

text \<open>
  C6, as the code has it. For a DatabaseMissingData error the handler first sends
  \<open>Critical database error: \<close> followed by the message of the error; if that send returns,
  it then writes the diagnostic log. For a RoleNotFound error it sends the message of the
  error and writes no log.
\<close>

theorem database_logged_role_not:
  assumes "\<not> hasattr_on_error (command ctx)"
    and "error = getattr_original raised"
    and "reply = ''Critical database error: '' @ message (attrs error)"
  shows "(variant_of error = Some DatabaseMissingData \<longrightarrow>
            take 1 (fst (on_command_error b ctx raised)) = [CtxSend reply]
            \<and> (ctx_send_raises b reply = None \<longrightarrow>
                 on_command_error b ctx raised =
                   (CtxSend reply # fst (log_traceback b ctx error),
                    snd (log_traceback b ctx error))
                 \<and> list_ex is_log_event (fst (on_command_error b ctx raised))))
       \<and> (variant_of error = Some RoleNotFound \<longrightarrow>
            on_command_error b ctx raised =
              ([CtxSend (message (attrs error))], ctx_send_raises b (message (attrs error)))
            \<and> \<not> list_ex is_log_event (fst (on_command_error b ctx raised)))"
proof (intro conjI impI)
  assume v: "variant_of error = Some DatabaseMissingData"
  have d: "on_command_error b ctx raised = and_then (ctx_send b reply) (log_traceback b ctx error)"
    using dispatch_DatabaseMissingData [OF assms(1), of raised b] v assms(2,3) by simp
  show "take 1 (fst (on_command_error b ctx raised)) = [CtxSend reply]"
    by (simp add: d and_then_def ctx_send_def call_def split: option.splits)
  assume s: "ctx_send_raises b reply = None"
  show "on_command_error b ctx raised =
          (CtxSend reply # fst (log_traceback b ctx error), snd (log_traceback b ctx error))"
    by (simp add: d s and_then_def ctx_send_def call_def)
  then show "list_ex is_log_event (fst (on_command_error b ctx raised))"
    using log_traceback_has_log [of b ctx error] by simp
next
  assume v: "variant_of error = Some RoleNotFound"
  have d: "on_command_error b ctx raised = ctx_send b (message (attrs error))"
    using dispatch_RoleNotFound [OF assms(1), of raised b] v assms(2) by simp
  show "on_command_error b ctx raised =
          ([CtxSend (message (attrs error))], ctx_send_raises b (message (attrs error)))"
    by (simp add: d ctx_send_def call_def)
  show "\<not> list_ex is_log_event (fst (on_command_error b ctx raised))"
    by (simp add: d ctx_send_def call_def)
qed

theorem database_logged_role_not_witness:
  "\<not> hasattr_on_error (command license_ctx)
   \<and> variant_of (getattr_original database_error) = Some DatabaseMissingData
   \<and> variant_of (getattr_original role_error) = Some RoleNotFound
   \<and> ctx_send_raises quiet_bot ''Critical database error: Guild 5 has no prefix'' = None
   \<and> on_command_error quiet_bot license_ctx database_error =
       (CtxSend ''Critical database error: Guild 5 has no prefix''
          # fst (log_traceback quiet_bot license_ctx database_error), None)
   \<and> list_ex is_log_event (fst (on_command_error quiet_bot license_ctx database_error))
   \<and> on_command_error quiet_bot license_ctx role_error = ([CtxSend ''Role 17 not found''], None)"
proof -
  have e: "getattr_original database_error = getattr_original database_error"
    "getattr_original role_error = getattr_original role_error"
    by simp_all
  have r: "''Critical database error: Guild 5 has no prefix''
             = ''Critical database error: '' @ message (attrs (getattr_original database_error))"
    "''Critical database error: Role 17 not found''
             = ''Critical database error: '' @ message (attrs (getattr_original role_error))"
    by (simp_all add: database_error_message)
  have n: "snd (log_traceback quiet_bot license_ctx (getattr_original database_error)) = None"
    by (simp add: log_traceback_cases Let_def quiet_bot_fields)
  have g: "getattr_original database_error = database_error"
    by (simp add: database_error_def getattr_original_def)
  show ?thesis
    using database_logged_role_not [OF license_ctx_unguarded e(1) r(1), of quiet_bot]
      database_logged_role_not [OF license_ctx_unguarded e(2) r(2), of quiet_bot]
      license_ctx_unguarded database_error_variant role_error_variant n
    by (simp add: quiet_bot_fields database_error_message g log_traceback_has_log)
qed

text \<open>
  When the bot may not write to the channel, the reply raises and the database error is
  not logged.
\<close>

theorem database_unlogged_counterexample:
  "\<not> hasattr_on_error (command license_ctx)
   \<and> variant_of (getattr_original database_error) = Some DatabaseMissingData
   \<and> on_command_error muted_bot license_ctx database_error =
       ([CtxSend ''Critical database error: Guild 5 has no prefix''], Some forbidden_error)
   \<and> \<not> list_ex is_log_event (fst (on_command_error muted_bot license_ctx database_error))"
  using license_ctx_unguarded database_error_variant
  by (simp add: dispatch_DatabaseMissingData and_then_def ctx_send_def call_def
      muted_bot_fields database_error_message)

section \<open>Forbidden actions\<close>

text \<open>
  C7. For a Forbidden error the reply is the text of the error and a full stop, followed for
  code 50013 by a line break and \<open>Check role hierarchy - I can only manage roles below me.\<close>,
  for code 50007 by a line break and \<open>Hint: Disabled DMs?\<close>, and by nothing for any other
  code.
\<close>

theorem forbidden_reply_by_code:
  assumes "\<not> hasattr_on_error (command ctx)"
    and "variant_of (getattr_original raised) = Some Forbidden"
    and "detail = str_error (getattr_original raised)"
    and "c = code (attrs (getattr_original raised))"
  shows "on_command_error b ctx raised =
           ([CtxSend (forbidden_reply detail c)], ctx_send_raises b (forbidden_reply detail c))
       \<and> forbidden_reply detail 50013 =
           detail @ ''.'' @ [CHR 0x0A] @ ''Check role hierarchy - I can only manage roles below me.''
       \<and> forbidden_reply detail 50007 = detail @ ''.'' @ [CHR 0x0A] @ ''Hint: Disabled DMs?''
       \<and> (c \<noteq> 50013 \<and> c \<noteq> 50007 \<longrightarrow> forbidden_reply detail c = detail @ ''.'')"
  using dispatch_Forbidden [OF assms(1,2), of b] assms(3,4)
  by (simp add: ctx_send_def call_def forbidden_reply_def)

theorem forbidden_reply_by_code_witness:
  "\<not> hasattr_on_error (command license_ctx)
   \<and> variant_of (getattr_original invoke_error) = Some Forbidden
   \<and> on_command_error quiet_bot license_ctx invoke_error =
       ([CtxSend (''403 Forbidden (error code: 50013): Missing Permissions.'' @ [CHR 0x0A]
                  @ ''Check role hierarchy - I can only manage roles below me.'')], None)"
proof -
  have v: "variant_of (getattr_original invoke_error) = Some Forbidden"
    by (simp add: invoke_error_original forbidden_error_variant)
  have d: "''403 Forbidden (error code: 50013): Missing Permissions''
             = str_error (getattr_original invoke_error)"
    by (simp add: invoke_error_original forbidden_error_def make_error_def str_error_def)
  have c: "50013 = code (attrs (getattr_original invoke_error))"
    by (simp add: invoke_error_original forbidden_error_def make_error_def)
  show ?thesis
    using forbidden_reply_by_code [OF license_ctx_unguarded v d c, of quiet_bot]
      license_ctx_unguarded v
    by (simp add: quiet_bot_def)
qed

section \<open>The process log\<close>

text \<open>
  C8, as the code has it. \<open>log_traceback\<close> always writes two critical entries first: the
  message with the type of the error, the name of the command and the text of the error, and
  the lines of the stack trace. When the bot is not ready, or the log channel does not
  resolve, it does nothing else and returns. It raises only when the bot is ready, the
  channel resolves and a send to that channel raises.
\<close>

theorem log_traceback_process_log:
  "take 2 (fst (log_traceback b ctx error)) =
     [LoggerCritical (exception_message ctx error),
      LoggerCriticalLines (format_exception (attrs error))]
   \<and> exception_message ctx error =
       ''Ignoring <class '' @ [CHR 0x27]
       @ (if type_module (attrs error) = ''builtins'' then [] else type_module (attrs error) @ ''.'')
       @ type_name (attrs error) @ [CHR 0x27] @ ''> exception in command '' @ [CHR 0x27]
       @ str_command (command ctx) @ [CHR 0x27] @ '':'' @ str_error error
   \<and> (\<not> is_ready b \<or> get_channel b (developer_log_channel_id b) = None \<longrightarrow>
        log_traceback b ctx error =
          ([LoggerCritical (exception_message ctx error),
            LoggerCriticalLines (format_exception (attrs error))], None))
   \<and> (snd (log_traceback b ctx error) = Some e \<longrightarrow>
        is_ready b \<and>
        (case get_channel b (developer_log_channel_id b) of
           None \<Rightarrow> False
         | Some ch \<Rightarrow>
             channel_send_raises b ch
               (Log_embed (exception_message ctx error) ctx ''Command error!'') = Some e
             \<or> channel_send_raises b ch
               (Traceback_embed (format_exception (attrs error))) = Some e))"
proof (intro conjI impI)
  show "take 2 (fst (log_traceback b ctx error)) =
     [LoggerCritical (exception_message ctx error),
      LoggerCriticalLines (format_exception (attrs error))]"
    by (rule log_traceback_take2)
  show "exception_message ctx error =
       ''Ignoring <class '' @ [CHR 0x27]
       @ (if type_module (attrs error) = ''builtins'' then [] else type_module (attrs error) @ ''.'')
       @ type_name (attrs error) @ [CHR 0x27] @ ''> exception in command '' @ [CHR 0x27]
       @ str_command (command ctx) @ [CHR 0x27] @ '':'' @ str_error error"
    by (simp add: exception_message_def str_type_def)
next
  assume "\<not> is_ready b \<or> get_channel b (developer_log_channel_id b) = None"
  then show "log_traceback b ctx error =
          ([LoggerCritical (exception_message ctx error),
            LoggerCriticalLines (format_exception (attrs error))], None)"
    by (rule log_traceback_unresolved)
next
  assume r: "snd (log_traceback b ctx error) = Some e"
  from log_traceback_raises [OF r] show "is_ready b" by simp
  from log_traceback_raises [OF r]
  show "case get_channel b (developer_log_channel_id b) of
           None \<Rightarrow> False
         | Some ch \<Rightarrow>
             channel_send_raises b ch
               (Log_embed (exception_message ctx error) ctx ''Command error!'') = Some e
             \<or> channel_send_raises b ch
               (Traceback_embed (format_exception (attrs error))) = Some e"
    by simp
qed

theorem log_traceback_process_log_witness:
  "\<not> is_ready quiet_bot
   \<and> log_traceback quiet_bot license_ctx key_error =
       ([LoggerCritical (''Ignoring <class '' @ [CHR 0x27] @ ''KeyError'' @ [CHR 0x27]
           @ ''> exception in command '' @ [CHR 0x27] @ ''license'' @ [CHR 0x27] @ '':guild_id''),
         LoggerCriticalLines [''Traceback (most recent call last):'', ''KeyError: guild_id'']],
        None)
   \<and> snd (log_traceback refused_log_bot license_ctx key_error) = Some forbidden_error
   \<and> is_ready refused_log_bot"
proof -
  have r: "snd (log_traceback refused_log_bot license_ctx key_error) = Some forbidden_error"
    by (simp add: log_traceback_cases Let_def refused_log_bot_fields)
  show ?thesis
    using log_traceback_process_log [of quiet_bot license_ctx key_error forbidden_error]
      log_traceback_process_log [of refused_log_bot license_ctx key_error forbidden_error]
      quiet_bot_fields(1) r
    by (simp add: key_error_message key_error_lines)
qed

text \<open>
  A log channel that refuses the message: \<open>log_traceback\<close> ends with the channel's
  exception.
\<close>

theorem log_traceback_raises_counterexample:
  "log_traceback refused_log_bot license_ctx key_error =
     ([LoggerCritical (exception_message license_ctx key_error),
       LoggerCriticalLines (format_exception (attrs key_error)),
       ChannelSend 900 (Log_embed (exception_message license_ctx key_error) license_ctx
                          ''Command error!'')],
      Some forbidden_error)
   \<and> snd (log_traceback refused_log_bot license_ctx key_error) \<noteq> None"
  by (simp add: log_traceback_cases Let_def refused_log_bot_fields)

section \<open>Commands that cannot run in direct messages\<close>

text \<open>
  C9. For a NoPrivateMessage error the handler calls nothing but \<open>ctx.author.send\<close> with
  \<open>This command cannot be used in direct messages.\<close>. If that call raises an instance of
  \<open>Forbidden\<close>, the handler returns normally; any other exception leaves the handler.
\<close>

theorem no_private_message_dm:
  assumes "\<not> hasattr_on_error (command ctx)"
    and "variant_of (getattr_original raised) = Some NoPrivateMessage"
  shows "fst (on_command_error b ctx raised) = [AuthorSend dm_only_text]
       \<and> dm_only_text = ''This command cannot be used in direct messages.''
       \<and> snd (on_command_error b ctx raised) =
           (case author_send_raises b dm_only_text of
              None \<Rightarrow> None
            | Some e \<Rightarrow> if isinstance e Forbidden then None else Some e)"
  using dispatch_NoPrivateMessage [OF assms, of b]
  by (simp add: try_except_def author_send_def call_def returns_def dm_only_text_def
      split: option.splits)

theorem no_private_message_dm_witness:
  "\<not> hasattr_on_error (command license_ctx)
   \<and> variant_of (getattr_original no_dm_error) = Some NoPrivateMessage
   \<and> on_command_error muted_bot license_ctx no_dm_error =
       ([AuthorSend ''This command cannot be used in direct messages.''], None)
   \<and> on_command_error broken_bot license_ctx no_dm_error =
       ([AuthorSend ''This command cannot be used in direct messages.''], Some http_error)"
proof -
  have f: "isinstance forbidden_error Forbidden"
    by (simp add: forbidden_error_def make_error_def isinstance_def)
  have h: "\<not> isinstance http_error Forbidden"
    by (simp add: http_error_def make_error_def isinstance_def)
  have m: "author_send_raises muted_bot dm_only_text = Some forbidden_error"
    by (simp add: muted_bot_def quiet_bot_def)
  have k: "author_send_raises broken_bot dm_only_text = Some http_error"
    by (simp add: broken_bot_def quiet_bot_def)
  show ?thesis
    using no_private_message_dm [OF license_ctx_unguarded no_dm_error_variant, of muted_bot]
      no_private_message_dm [OF license_ctx_unguarded no_dm_error_variant, of broken_bot]
      license_ctx_unguarded no_dm_error_variant f h m k
    by (simp add: prod_eq_iff)
qed

section \<open>Wrapped errors\<close>

text \<open>
  C10. When the error passed to the handler has an \<open>original\<close> attribute, the handler does
  for it what the table of section 4.1 prescribes for the inner error: the variant is that of
  the inner error, and the reply and the diagnostic log are built from the inner error's
  attributes (its missing permissions, retry time, code, message, text, type name and stack
  trace). Nothing of the wrapper is read, so the outcome is that of the inner error raised
  bare. An error without the attribute is classified and answered as it is.
\<close>

theorem original_is_handled:
  "(original raised = Some inner \<longrightarrow>
      on_command_error b ctx raised =
        (if hasattr_on_error (command ctx) then ([], None)
         else respond b ctx (variant_of inner) inner)
      \<and> on_command_error b ctx raised = on_command_error b ctx (PyError (attrs inner) None))
   \<and> (original raised = None \<longrightarrow>
      on_command_error b ctx raised =
        (if hasattr_on_error (command ctx) then ([], None)
         else respond b ctx (variant_of raised) raised))"
proof (intro conjI impI)
  assume w: "original raised = Some inner"
  then have g: "getattr_original raised = inner"
    by (simp add: getattr_original_def)
  show "on_command_error b ctx raised =
        (if hasattr_on_error (command ctx) then ([], None)
         else respond b ctx (variant_of inner) inner)"
    using on_command_error_respond [of b ctx raised] by (simp only: g)
  have "attrs (getattr_original raised) = attrs (getattr_original (PyError (attrs inner) None))"
    using w by (simp add: getattr_original_def)
  then show "on_command_error b ctx raised = on_command_error b ctx (PyError (attrs inner) None)"
    by (rule on_command_error_attrs)
next
  assume "original raised = None"
  then have g: "getattr_original raised = raised"
    by (simp add: getattr_original_def)
  show "on_command_error b ctx raised =
        (if hasattr_on_error (command ctx) then ([], None)
         else respond b ctx (variant_of raised) raised)"
    using on_command_error_respond [of b ctx raised] by (simp only: g)
qed

theorem original_is_handled_witness:
  "original invoke_error = Some forbidden_error
   \<and> variant_of invoke_error = None
   \<and> variant_of forbidden_error = Some Forbidden
   \<and> on_command_error quiet_bot license_ctx invoke_error =
       ([CtxSend (''403 Forbidden (error code: 50013): Missing Permissions.'' @ [CHR 0x0A]
                  @ ''Check role hierarchy - I can only manage roles below me.'')], None)
   \<and> original invoke_value_error = Some value_error
   \<and> on_command_error quiet_bot license_ctx invoke_value_error =
       ([LoggerCritical (''Ignoring <class '' @ [CHR 0x27] @ ''ValueError'' @ [CHR 0x27]
            @ ''> exception in command '' @ [CHR 0x27] @ ''license'' @ [CHR 0x27]
            @ '':bad license duration''),
         LoggerCriticalLines
           [''Traceback (most recent call last):'', ''ValueError: bad license duration''],
         CtxSend (''Ignoring exception **ValueError** that happened while processing command **license**:''
                  @ [CHR 0x0A] @ ''bad license duration'')], None)
   \<and> original value_error = None
   \<and> on_command_error quiet_bot license_ctx value_error =
       on_command_error quiet_bot license_ctx invoke_value_error"
proof -
  have o: "original invoke_error = Some forbidden_error"
    "original invoke_value_error = Some value_error" "original value_error = None"
    by (simp_all add: invoke_error_def invoke_value_error_def value_error_def)
  have a: "on_command_error quiet_bot license_ctx invoke_error =
             respond quiet_bot license_ctx (Some Forbidden) forbidden_error"
    using original_is_handled [of invoke_error forbidden_error quiet_bot license_ctx,
        THEN conjunct1] o(1) license_ctx_unguarded
    by (simp add: forbidden_error_variant)
  have c: "on_command_error quiet_bot license_ctx invoke_value_error =
             respond quiet_bot license_ctx None value_error"
    using original_is_handled [of invoke_value_error value_error quiet_bot license_ctx,
        THEN conjunct1] o(2) license_ctx_unguarded
    by (simp add: value_error_variant)
  have d: "on_command_error quiet_bot license_ctx value_error =
             respond quiet_bot license_ctx None value_error"
    using original_is_handled [of value_error value_error quiet_bot license_ctx,
        THEN conjunct2] o(3) license_ctx_unguarded
    by (simp add: value_error_variant)
  show ?thesis
    by (simp only: o a c d invoke_error_variant forbidden_error_variant respond_forbidden_error
        respond_value_error simp_thms)
qed

end
